theory Spec2Isabelle
  imports Main "HOL-Library.Word"
begin

section \<open>Python values, exceptions and strings\<close>

text \<open>
  The repository is Python. A Python \<open>str\<close> is modelled as a \<open>string\<close> whose
  characters are code points below 256; \<open>bytes\<close> are lists of 8-bit words. The values
  that travel through JSON frames, the session store and the customer record are
  \<open>pyval\<close>; a \<open>dict\<close> is the list of its items, read with \<open>map_of\<close>.
  Floating point values are not part of the model.
\<close>

type_synonym byte = "8 word"

datatype pyval =
    PNone
  | PBool bool
  | PInt int
  | PStr string
  | PList "pyval list"
  | PTuple "pyval list"
  | PDict "(string \<times> pyval) list"

datatype exn =
    ValueError
  | KeyError
  | TypeError
  | AttributeError
  | NameError
  | ConnectionError
  | Base64Error
  | JSONDecodeError
  | AuthenticationError
  | APIError
  | RequestsError
  | TransportError
  | CallbackError
  | WebSocketDisconnect

text \<open>\<open>str.strip()\<close>: drops leading and trailing white space (the code points below 256
  for which \<open>str.isspace\<close> holds).\<close>

definition is_space :: "char \<Rightarrow> bool" where
  "is_space c = (let n = (of_char c :: nat) in
     (9 \<le> n \<and> n \<le> 13) \<or> (28 \<le> n \<and> n \<le> 32) \<or> n = 133 \<or> n = 160)"

definition strip :: "string \<Rightarrow> string" where
  "strip s = rev (dropWhile is_space (rev (dropWhile is_space s)))"

text \<open>\<open>str.lower()\<close> on code points below 256: the ASCII capitals and the Latin-1
  capitals (192 to 222 without the multiplication sign 215) move up by 32.\<close>

definition lower_char :: "char \<Rightarrow> char" where
  "lower_char c = (let n = (of_char c :: nat) in
     if (65 \<le> n \<and> n \<le> 90) \<or> (192 \<le> n \<and> n \<le> 222 \<and> n \<noteq> 215)
     then char_of (n + 32) else c)"

definition lower :: "string \<Rightarrow> string" where
  "lower s = map lower_char s"

text \<open>The operator \<open>needle in haystack\<close> on strings.\<close>

fun starts_with :: "string \<Rightarrow> string \<Rightarrow> bool" where
  "starts_with [] ys = True"
| "starts_with (x # xs) [] = False"
| "starts_with (x # xs) (y # ys) = (x = y \<and> starts_with xs ys)"

fun str_in :: "string \<Rightarrow> string \<Rightarrow> bool" where
  "str_in needle [] = (needle = [])"
| "str_in needle (y # ys) = (starts_with needle (y # ys) \<or> str_in needle ys)"

text \<open>\<open>==\<close> between a Python value and the integer literal \<open>0\<close>: integers compare by
  value, \<open>False == 0\<close> holds, and a string, \<open>None\<close> or a container never equals \<open>0\<close>.\<close>

fun eq_zero :: "pyval \<Rightarrow> bool" where
  "eq_zero (PInt n) = (n = 0)"
| "eq_zero (PBool b) = (\<not> b)"
| "eq_zero _ = False"

section \<open>tools.py\<close>

definition check_payment_status :: "pyval \<Rightarrow> string" where
  "check_payment_status DPD =
     (if eq_zero DPD then ''payment completed'' else ''payment not completed'')"

text \<open>\<open>dict.get(key, default)\<close>.\<close>

definition dict_get :: "(string \<times> pyval) list \<Rightarrow> string \<Rightarrow> pyval \<Rightarrow> pyval" where
  "dict_get d k dflt = (case map_of d k of None \<Rightarrow> dflt | Some v \<Rightarrow> v)"

text \<open>The dispatch of \<open>handle_response\<close> (lines 220 to 225): the tool named
  \<open>check_payment_status\<close> gets the \<open>DPD\<close> entry of the arguments when they are a dict and
  \<open>0\<close> otherwise; every other name gives the literal \<open>Unknown tool\<close>.\<close>

definition dispatch_tool :: "string \<Rightarrow> pyval \<Rightarrow> string" where
  "dispatch_tool name args =
     (if name = ''check_payment_status''
      then check_payment_status
             (case args of PDict d \<Rightarrow> dict_get d ''DPD'' (PInt 0) | _ \<Rightarrow> PInt 0)
      else ''Unknown tool'')"

section \<open>The prompt builder of realtime_client.py\<close>

text \<open>An exception is the left summand of a result, and \<open>ebind\<close> runs the next statement
  only when the one before has not raised.\<close>

definition ebind :: "exn + 'a \<Rightarrow> ('a \<Rightarrow> exn + 'b) \<Rightarrow> exn + 'b" where
  "ebind m f = (case m of Inl e \<Rightarrow> Inl e | Inr v \<Rightarrow> f v)"

text \<open>Subscription \<open>obj[key]\<close> with a string key: a dict raises \<open>KeyError\<close> on a missing key,
  every other value of the model raises \<open>TypeError\<close>.\<close>

fun getitem :: "pyval \<Rightarrow> string \<Rightarrow> exn + pyval" where
  "getitem (PDict d) k = (case map_of d k of None \<Rightarrow> Inl KeyError | Some v \<Rightarrow> Inr v)"
| "getitem _ k = Inl TypeError"

text \<open>\<open>gender.lower()\<close>: only a string has the method.\<close>

fun lower_method :: "pyval \<Rightarrow> exn + string" where
  "lower_method (PStr s) = Inr (lower s)"
| "lower_method _ = Inl AttributeError"

text \<open>
  The instructions are an f-string: fixed script text with thirteen interpolations. The
  model keeps the interpolations in the order of the template and stands \<open>Script k\<close> for
  the \<open>k\<close>-th stretch of fixed text, which holds characters beyond code point 255 and
  plays no part below. The conversion \<open>"{:,.2f}".format(float(emi))\<close> is floating point
  arithmetic of the Python runtime and is the parameter \<open>fmt\<close>.
\<close>

datatype piece =
    Script nat
  | Name pyval
  | Gender pyval
  | Salutation string
  | Emi string
  | LoanType pyval
  | DueDate pyval

type_synonym prompt = "piece list"

definition get_system_prompt :: "(pyval \<Rightarrow> exn + string) \<Rightarrow> pyval \<Rightarrow> exn + prompt" where
  "get_system_prompt fmt customer =
     ebind (getitem customer ''Debtor_Name'') (\<lambda>name.
     ebind (getitem customer ''Gender'') (\<lambda>gender.
     ebind (getitem customer ''EMI_Amount'') (\<lambda>emi.
     ebind (getitem customer ''Payment_Due_Date'') (\<lambda>due_date.
     ebind (getitem customer ''Product'') (\<lambda>loan_type.
     ebind (fmt emi) (\<lambda>formatted_emi.
     let formatted_date = due_date in
     ebind (lower_method gender) (\<lambda>lowered.
     let salutation = (if lowered = ''male'' then ''Mr.'' else ''Ms.'') in
     Inr [Script 0, Name name, Script 1, Gender gender, Script 2, Salutation salutation,
          Script 3, Emi formatted_emi, Script 4, LoanType loan_type,
          Script 5, Salutation salutation, Script 6, Name name,
          Script 7, Emi formatted_emi, Script 8, DueDate formatted_date,
          Script 9, Salutation salutation, Script 10, Name name,
          Script 11, Salutation salutation, Script 12, Name name, Script 13])))))))"

text \<open>The honorifics a prompt uses, in order.\<close>

fun salutations :: "prompt \<Rightarrow> string list" where
  "salutations [] = []"
| "salutations (Salutation s # ps) = s # salutations ps"
| "salutations (_ # ps) = salutations ps"

text \<open>A string equals \<open>male\<close> up to the case of its letters.\<close>

definition ci_male :: "string \<Rightarrow> bool" where
  "ci_male g = (case g of
       [c1, c2, c3, c4] \<Rightarrow>
         (c1 = CHR ''m'' \<or> c1 = CHR ''M'') \<and> (c2 = CHR ''a'' \<or> c2 = CHR ''A'')
         \<and> (c3 = CHR ''l'' \<or> c3 = CHR ''L'') \<and> (c4 = CHR ''e'' \<or> c4 = CHR ''E'')
     | _ \<Rightarrow> False)"

section \<open>The base64 codec of the standard library\<close>

text \<open>
  \<open>base64.b64encode\<close> and \<open>base64.b64decode\<close> are the Python runtime's (RFC 4648, the
  standard alphabet). Shifts and masks on six-bit groups are written as division and
  remainder on \<open>nat\<close>.
\<close>

definition b64_char :: "nat \<Rightarrow> char" where
  "b64_char n =
     (if n < 26 then char_of (65 + n)
      else if n < 52 then char_of (71 + n)
      else if n < 62 then char_of (n - 4)
      else if n = 62 then CHR ''+'' else CHR ''/'')"

definition b64_index :: "char \<Rightarrow> nat option" where
  "b64_index c = (let n = (of_char c :: nat) in
     if 65 \<le> n \<and> n \<le> 90 then Some (n - 65)
     else if 97 \<le> n \<and> n \<le> 122 then Some (n - 71)
     else if 48 \<le> n \<and> n \<le> 57 then Some (n + 4)
     else if n = 43 then Some 62
     else if n = 47 then Some 63
     else None)"

fun b64encode :: "byte list \<Rightarrow> string" where
  "b64encode (a # b # c # rest) =
     [b64_char (unat a div 4),
      b64_char ((unat a mod 4) * 16 + unat b div 16),
      b64_char ((unat b mod 16) * 4 + unat c div 64),
      b64_char (unat c mod 64)] @ b64encode rest"
| "b64encode [a, b] =
     [b64_char (unat a div 4),
      b64_char ((unat a mod 4) * 16 + unat b div 16),
      b64_char ((unat b mod 16) * 4),
      CHR ''='']"
| "b64encode [a] =
     [b64_char (unat a div 4), b64_char ((unat a mod 4) * 16), CHR ''='', CHR ''='']"
| "b64encode [] = []"

text \<open>
  The decoder in its default, non-strict mode (\<open>binascii.a2b_base64\<close>): one pass over
  the characters with the position in the current group of four, the bits left over
  from the character before, and the count of padding characters seen in a row.
  A character outside the alphabet is skipped. Padding that completes a group ends the
  decoding; input that ends inside a group raises \<open>binascii.Error\<close>.
\<close>

fun a2b_base64 :: "nat \<Rightarrow> nat \<Rightarrow> nat \<Rightarrow> byte list \<Rightarrow> string \<Rightarrow> exn + byte list" where
  "a2b_base64 quad_pos leftchar pads out [] =
     (if quad_pos \<noteq> 0 then Inl Base64Error else Inr out)"
| "a2b_base64 quad_pos leftchar pads out (this_ch # rest) =
     (if this_ch = CHR ''='' then
        (if quad_pos \<ge> 2 \<and> quad_pos + (pads + 1) \<ge> 4 then Inr out
         else a2b_base64 quad_pos leftchar (if quad_pos \<ge> 2 then pads + 1 else pads) out rest)
      else
        (case b64_index this_ch of
           None \<Rightarrow> a2b_base64 quad_pos leftchar pads out rest
         | Some v \<Rightarrow>
             (if quad_pos = 0 then a2b_base64 1 v 0 out rest
              else if quad_pos = 1 then
                a2b_base64 2 (v mod 16) 0 (out @ [of_nat (leftchar * 4 + v div 16)]) rest
              else if quad_pos = 2 then
                a2b_base64 3 (v mod 4) 0 (out @ [of_nat (leftchar * 16 + v div 4)]) rest
              else
                a2b_base64 0 0 0 (out @ [of_nat (leftchar * 64 + v)]) rest)))"

text \<open>\<open>base64.b64decode\<close> of a \<open>str\<close>: the string is encoded as ASCII first, which raises
  \<open>ValueError\<close> on a character above 127.\<close>

definition b64decode :: "string \<Rightarrow> exn + byte list" where
  "b64decode s =
     (if \<exists>c \<in> set s. (of_char c :: nat) \<ge> 128 then Inl ValueError
      else a2b_base64 0 0 0 [] s)"

section \<open>The realtime session client\<close>

text \<open>
  What the client sends to the upstream model API, one constructor per operation the
  source issues on its connection.
\<close>

datatype upstream_msg =
    SessionUpdate prompt
  | InputAudioBufferAppend string
  | InputAudioBufferCommit
  | ResponseCreate
  | ConversationItemCreate "pyval list"
  | FunctionCallOutput string string

datatype callback = TextCallback string | AudioCallback "byte list"

text \<open>
  A statement either completes or raises; both leave a state behind. The upstream
  connection is known by the one thing the code cannot decide: whether an operation
  raises, given the operations issued before it. A callback is known by whether it
  raises on its argument.
\<close>

datatype 'a result = Ok 'a | Raised exn 'a

type_synonym connection = "upstream_msg list \<Rightarrow> upstream_msg \<Rightarrow> bool"

type_synonym 'a handler = "'a \<Rightarrow> bool"

text \<open>
  The fields of \<open>RealtimeClient\<close>. Two fields are not in the source and only record
  effects: \<open>upstream\<close> lists the operations issued on the connection, in order, and
  \<open>callbacks\<close> the calls of the two handlers. Of \<open>self.config\<close> the generated
  instructions are kept; its other entries are constants.
\<close>

record realtime_client =
  connection :: "connection option"
  connection_manager :: bool
  connected :: bool
  audio_buffer :: "byte list list"
  transcript :: string
  response_handler :: "string handler option"
  audio_handler :: "byte list handler option"
  chat_history :: "(string \<times> string) list"
  responding :: bool
  customer_data :: pyval
  conversation_done :: bool
  instructions :: prompt
  upstream :: "upstream_msg list"
  callbacks :: "callback list"

text \<open>\<open>__init__\<close>: the two prints read \<open>session_data["Debtor_Name"]\<close>, and the config
  builds the instructions; either may raise.\<close>

definition init_client ::
  "(pyval \<Rightarrow> exn + string) \<Rightarrow> string handler option \<Rightarrow> byte list handler option
     \<Rightarrow> pyval \<Rightarrow> exn + realtime_client" where
  "init_client fmt rh ah session_data =
     ebind (getitem session_data ''Debtor_Name'') (\<lambda>_.
     ebind (get_system_prompt fmt session_data) (\<lambda>p.
     Inr \<lparr>connection = None, connection_manager = False, connected = False,
          audio_buffer = [], transcript = [], response_handler = rh, audio_handler = ah,
          chat_history = [], responding = False, customer_data = session_data,
          conversation_done = False, instructions = p, upstream = [], callbacks = []\<rparr>))"

definition is_connected :: "realtime_client \<Rightarrow> bool" where
  "is_connected c = connected c"

text \<open>One operation on the connection: it is issued, and it may raise.\<close>

definition send :: "connection \<Rightarrow> realtime_client \<Rightarrow> upstream_msg \<Rightarrow> realtime_client result" where
  "send conn c m =
     (let c' = c\<lparr>upstream := upstream c @ [m]\<rparr>
      in if conn (upstream c) m then Raised TransportError c' else Ok c')"

definition disconnect :: "realtime_client \<Rightarrow> realtime_client" where
  "disconnect c = c\<lparr>connected := False\<rparr>"

text \<open>
  The four configuration values of the module: the key and the endpoint come from the
  environment, the API version and the deployment are literals.
\<close>

record config =
  api_key :: "string option"
  endpoint :: "string option"
  api_version :: "string option"
  deployment :: "string option"

definition module_config :: "string option \<Rightarrow> string option \<Rightarrow> config" where
  "module_config key ep =
     \<lparr>api_key = key, endpoint = ep, api_version = Some ''2025-04-01-preview'',
      deployment = Some ''gpt-4o-realtime-preview''\<rparr>"

text \<open>\<open>not x\<close> for a value that is \<open>None\<close> or a string.\<close>

definition falsy :: "string option \<Rightarrow> bool" where
  "falsy v = (v = None \<or> v = Some [])"

text \<open>
  \<open>connect\<close>: \<open>handshake\<close> is the outcome of entering the connection manager. Every
  exception is logged, clears \<open>connected\<close> and is raised again to the caller.
\<close>

definition connect :: "config \<Rightarrow> exn + connection \<Rightarrow> realtime_client \<Rightarrow> realtime_client result" where
  "connect cfg handshake c =
     (if falsy (endpoint cfg) \<or> falsy (api_key cfg) \<or> falsy (api_version cfg)
         \<or> falsy (deployment cfg)
      then Raised ValueError (c\<lparr>connected := False\<rparr>)
      else
        (let c0 = (if connection_manager c then disconnect c else c);
             c1 = c0\<lparr>connection_manager := True\<rparr>
         in case handshake of
              Inl e \<Rightarrow> Raised e (c1\<lparr>connected := False\<rparr>)
            | Inr conn \<Rightarrow>
                (case send conn (c1\<lparr>connection := Some conn\<rparr>) (SessionUpdate (instructions c1)) of
                   Raised e c2 \<Rightarrow> Raised e (c2\<lparr>connected := False\<rparr>)
                 | Ok c2 \<Rightarrow> Ok (c2\<lparr>connected := True\<rparr>))))"

definition append_input_audio :: "realtime_client \<Rightarrow> byte list \<Rightarrow> realtime_client result" where
  "append_input_audio c chunk =
     (case connection c of
        None \<Rightarrow> Ok c
      | Some conn \<Rightarrow> send conn c (InputAudioBufferAppend (b64encode chunk)))"

definition commit_audio :: "realtime_client \<Rightarrow> realtime_client result" where
  "commit_audio c =
     (case connection c of
        None \<Rightarrow> Ok c
      | Some conn \<Rightarrow> send conn c InputAudioBufferCommit)"

text \<open>\<open>create_response\<close> catches what the send raises, so it always completes.\<close>

definition create_response :: "realtime_client \<Rightarrow> realtime_client" where
  "create_response c =
     (case connection c of
        None \<Rightarrow> c
      | Some conn \<Rightarrow>
          (if \<not> responding c then
             (case send conn (c\<lparr>responding := True\<rparr>) ResponseCreate of
                Ok c' \<Rightarrow> c'
              | Raised e c' \<Rightarrow> c'\<lparr>responding := False\<rparr>)
           else c))"

definition send_user_message_content :: "realtime_client \<Rightarrow> pyval list \<Rightarrow> realtime_client result" where
  "send_user_message_content c content =
     (case (if content \<noteq> [] then connection c else None) of
        None \<Rightarrow> Ok (create_response c)
      | Some conn \<Rightarrow>
          (case send conn c (ConversationItemCreate content) of
             Raised e c' \<Rightarrow> Raised e c'
           | Ok c' \<Rightarrow> Ok (create_response c')))"

definition is_conversation_done :: "realtime_client \<Rightarrow> bool" where
  "is_conversation_done c = conversation_done c"

subsection \<open>The event loop\<close>

text \<open>
  The events of the upstream stream that \<open>handle_response\<close> tells apart by their type.
  An added output item carries the item's type (if it has one), call id and name; the
  arguments-done event carries the call id.
\<close>

datatype event =
    ErrorEvent
  | InputAudioTranscriptionCompleted string
  | ResponseAudioDelta string
  | ResponseTextDelta string
  | ResponseAudioTranscriptDelta string
  | ResponseDone
  | ResponseOutputItemAdded "string option" string string
  | ResponseFunctionCallArgumentsDone string
  | OtherEvent string

record tool_call =
  tc_name :: string
  tc_call_id :: string
  tc_arguments :: pyval

text \<open>The loop's state: the client and the local dict \<open>pending_tool_calls\<close>.\<close>

record loop_state =
  client :: realtime_client
  pending_tool_calls :: "string \<rightharpoonup> tool_call"

text \<open>\<open>json.dumps\<close> of a string, for strings of printable ASCII characters (the results
  of the tools are such).\<close>

definition json_dumps :: "string \<Rightarrow> string" where
  "json_dumps s =
     [CHR 0x22] @
     concat (map (\<lambda>ch. if ch = CHR 0x22 \<or> ch = CHR 0x5C then [CHR 0x5C, ch] else [ch]) s)
     @ [CHR 0x22]"

text \<open>The branch of \<open>response.done\<close> once the stripped transcript is known to be
  non-empty.\<close>

definition finalize_turn :: "realtime_client \<Rightarrow> realtime_client result" where
  "finalize_turn c =
     (let content = strip (transcript c);
          c1 = c\<lparr>chat_history := chat_history c @ [(''assistant'', content)]\<rparr>;
          finish = (\<lambda>c2. c2\<lparr>conversation_done := str_in ''[END_CONVERSATION]'' content,
                             transcript := [], audio_buffer := [], responding := False\<rparr>)
      in case response_handler c1 of
           None \<Rightarrow> Ok (finish c1)
         | Some h \<Rightarrow>
             (let c2 = c1\<lparr>callbacks := callbacks c1 @ [TextCallback content]\<rparr>
              in if h content then Raised CallbackError c2 else Ok (finish c2)))"

text \<open>The branch of \<open>response.function_call_arguments.done\<close> for a call id that is
  pending. The arguments are the stored customer record; the log line after the dispatch
  calls \<open>args.get\<close>, which only a dict has.\<close>

definition run_tool_call :: "connection \<Rightarrow> loop_state \<Rightarrow> string \<Rightarrow> tool_call \<Rightarrow> loop_state result" where
  "run_tool_call conn s cid call0 =
     (let args = customer_data (client s);
          call = call0\<lparr>tc_arguments := args\<rparr>;
          s1 = s\<lparr>pending_tool_calls := (pending_tool_calls s)(cid \<mapsto> call)\<rparr>;
          res = dispatch_tool (tc_name call) args
      in case args of
           PDict d \<Rightarrow>
             (case send conn (client s1) (FunctionCallOutput cid (json_dumps res)) of
                Raised e c2 \<Rightarrow> Raised e (s1\<lparr>client := c2\<rparr>)
              | Ok c2 \<Rightarrow>
                  (case send conn c2 ResponseCreate of
                     Raised e c3 \<Rightarrow> Raised e (s1\<lparr>client := c3\<rparr>)
                   | Ok c3 \<Rightarrow>
                       Ok (s1\<lparr>client := c3,
                              pending_tool_calls := (pending_tool_calls s1)(cid := None)\<rparr>)))
         | _ \<Rightarrow> Raised AttributeError s1)"

text \<open>One iteration of the \<open>async for\<close>: the \<open>if\<close>/\<open>elif\<close> chain in the source's order.
  The debounce sleep has no effect on the state.\<close>

fun handle_event :: "connection \<Rightarrow> loop_state \<Rightarrow> event \<Rightarrow> loop_state result" where
  "handle_event conn s ErrorEvent = Ok s"
| "handle_event conn s (InputAudioTranscriptionCompleted t) =
     (let user_transcript = strip t
      in if user_transcript \<noteq> [] then
           Ok (s\<lparr>client := create_response
                 ((client s)\<lparr>chat_history := chat_history (client s) @ [(''user'', user_transcript)]\<rparr>)\<rparr>)
         else Ok s)"
| "handle_event conn s (ResponseAudioDelta delta) =
     (case audio_handler (client s) of
        None \<Rightarrow> Ok s
      | Some h \<Rightarrow>
          (case b64decode delta of
             Inl e \<Rightarrow> Raised e s
           | Inr audio_bytes \<Rightarrow>
               (let s1 = s\<lparr>client := (client s)\<lparr>callbacks := callbacks (client s) @ [AudioCallback audio_bytes]\<rparr>\<rparr>
                in if h audio_bytes then Raised CallbackError s1 else Ok s1)))"
| "handle_event conn s (ResponseTextDelta delta) =
     Ok (s\<lparr>client := (client s)\<lparr>transcript := transcript (client s) @ delta\<rparr>\<rparr>)"
| "handle_event conn s (ResponseAudioTranscriptDelta delta) =
     Ok (s\<lparr>client := (client s)\<lparr>transcript := transcript (client s) @ delta\<rparr>\<rparr>)"
| "handle_event conn s ResponseDone =
     (if strip (transcript (client s)) \<noteq> [] then
        (case finalize_turn (client s) of
           Raised e c' \<Rightarrow> Raised e (s\<lparr>client := c'\<rparr>)
         | Ok c' \<Rightarrow> Ok (s\<lparr>client := c'\<rparr>))
      else Ok s)"
| "handle_event conn s (ResponseOutputItemAdded item_type cid nm) =
     (if item_type = Some ''function_call'' then
        Ok (s\<lparr>pending_tool_calls := (pending_tool_calls s)
               (cid \<mapsto> \<lparr>tc_name = nm, tc_call_id = cid, tc_arguments = PDict []\<rparr>)\<rparr>)
      else Ok s)"
| "handle_event conn s (ResponseFunctionCallArgumentsDone cid) =
     (case pending_tool_calls s cid of
        None \<Rightarrow> Ok s
      | Some call0 \<Rightarrow> run_tool_call conn s cid call0)"
| "handle_event conn s (OtherEvent ty) = Ok s"

text \<open>The loop over the events of the stream: an exception ends it.\<close>

fun event_loop :: "connection \<Rightarrow> loop_state \<Rightarrow> event list \<Rightarrow> loop_state result" where
  "event_loop conn s [] = Ok s"
| "event_loop conn s (ev # evs) =
     (case handle_event conn s ev of
        Raised e s' \<Rightarrow> Raised e s'
      | Ok s' \<Rightarrow> event_loop conn s' evs)"

definition handle_response :: "connection \<Rightarrow> realtime_client \<Rightarrow> event list \<Rightarrow> loop_state result" where
  "handle_response conn c evs =
     event_loop conn \<lparr>client = c, pending_tool_calls = Map.empty\<rparr> evs"

text \<open>The two readings of a result.\<close>

fun state_of :: "'a result \<Rightarrow> 'a" where
  "state_of (Ok s) = s"
| "state_of (Raised e s) = s"

fun raised :: "'a result \<Rightarrow> exn option" where
  "raised (Ok s) = None"
| "raised (Raised e s) = Some e"

section \<open>The call gateway of server.py\<close>

text \<open>
  The frames the server writes to the client socket, and what the receive loop reads:
  a text that parses as JSON, a text that does not, or the disconnect of the client.
\<close>

datatype ws_frame = WsText string | WsAudioData string | WsStopAudio

datatype inbound = Frame pyval | Malformed | Disconnected

text \<open>The forwarding calls the receive loop makes on the client, in order.\<close>

datatype client_call = AppendInputAudio "byte list" | CommitAudio | CreateResponse

text \<open>
  The state of one \<open>websocket_endpoint\<close>: the client, the frames the loop has written,
  whether the socket is closed, and whether writing to it raises. The field
  \<open>client_calls\<close> is not in the source and records the forwarding calls.
\<close>

record gateway =
  rt_client :: realtime_client
  ws_sent :: "ws_frame list"
  ws_closed :: bool
  ws_broken :: bool
  client_calls :: "client_call list"

text \<open>The two callbacks of the gateway catch every exception of their own.\<close>

definition send_text :: "string handler" where
  "send_text text = False"

definition send_audio :: "byte list handler" where
  "send_audio audio_bytes = False"

text \<open>The \<open>if kind == ...\<close> chain of the loop body for a payload that is a dict.\<close>

definition forward_frame :: "gateway \<Rightarrow> (string \<times> pyval) list \<Rightarrow> gateway result" where
  "forward_frame g payload =
     (let kind = dict_get payload ''kind'' PNone
      in if kind = PStr ''AudioData'' then
           (case getitem (PDict payload) ''data'' of
              Inl e \<Rightarrow> Raised e g
            | Inr (PStr data) \<Rightarrow>
                (case b64decode data of
                   Inl e \<Rightarrow> Raised e g
                 | Inr audio_bytes \<Rightarrow>
                     (let g1 = g\<lparr>client_calls := client_calls g @ [AppendInputAudio audio_bytes]\<rparr>
                      in case append_input_audio (rt_client g1) audio_bytes of
                           Raised e c \<Rightarrow> Raised e (g1\<lparr>rt_client := c\<rparr>)
                         | Ok c \<Rightarrow> Ok (g1\<lparr>rt_client := c\<rparr>)))
            | Inr _ \<Rightarrow> Raised TypeError g)
         else if kind = PStr ''StopAudio'' then
           (let g1 = g\<lparr>client_calls := client_calls g @ [CommitAudio]\<rparr>
            in case commit_audio (rt_client g1) of
                 Raised e c \<Rightarrow> Raised e (g1\<lparr>rt_client := c\<rparr>)
               | Ok c \<Rightarrow>
                   Ok (g1\<lparr>rt_client := create_response c,
                          client_calls := client_calls g1 @ [CreateResponse]\<rparr>))
         else Ok g)"

text \<open>How one iteration of \<open>while True\<close> leaves the loop: it goes on, it breaks after the
  conversation is done, or an exception ends it.\<close>

datatype ctl = Next | Break | Fail exn

definition receive_step :: "gateway \<Rightarrow> inbound \<Rightarrow> ctl \<times> gateway" where
  "receive_step g msg =
     (case msg of
        Disconnected \<Rightarrow> (Fail WebSocketDisconnect, g)
      | Malformed \<Rightarrow> (Fail JSONDecodeError, g)
      | Frame (PDict payload) \<Rightarrow>
          (case forward_frame g payload of
             Raised e g' \<Rightarrow> (Fail e, g')
           | Ok g' \<Rightarrow>
               (if is_conversation_done (rt_client g') then
                  (if ws_broken g' then (Fail TransportError, g')
                   else (Break, g'\<lparr>ws_sent := ws_sent g' @ [WsStopAudio], ws_closed := True\<rparr>))
                else (Next, g')))
      | Frame _ \<Rightarrow> (Fail AttributeError, g))"

text \<open>The receive loop over the messages that arrive, up to the first one that ends it.\<close>

fun receive_loop :: "gateway \<Rightarrow> inbound list \<Rightarrow> ctl \<times> gateway" where
  "receive_loop g [] = (Next, g)"
| "receive_loop g (msg # msgs) =
     (case receive_step g msg of
        (Next, g') \<Rightarrow> receive_loop g' msgs
      | (Break, g') \<Rightarrow> (Break, g')
      | (Fail e, g') \<Rightarrow> (Fail e, g'))"

text \<open>The \<open>finally\<close> clause: the client is disconnected however the loop ended.\<close>

definition websocket_session :: "gateway \<Rightarrow> inbound list \<Rightarrow> ctl \<times> gateway" where
  "websocket_session g msgs =
     (case receive_loop g msgs of
        (r, g') \<Rightarrow> (r, g'\<lparr>rt_client := disconnect (rt_client g')\<rparr>))"

section \<open>Customer context and call initiation\<close>

text \<open>The mock resolver reads \<open>data.csv\<close> into a data frame and returns the first row that
  matches both ids; it catches every exception and returns the empty dict then.\<close>

record data_frame =
  df_columns :: "string list"
  df_rows :: "(string \<times> pyval) list list"

definition fetch_additional_customer_info :: "exn + data_frame \<Rightarrow> string \<Rightarrow> string \<Rightarrow> pyval" where
  "fetch_additional_customer_info csv loan_id system_id =
     (case csv of
        Inl e \<Rightarrow> PDict []
      | Inr df \<Rightarrow>
          (if ''Loan_ID'' \<notin> set (df_columns df) \<or> ''system_id'' \<notin> set (df_columns df)
           then PDict []
           else
             (case filter (\<lambda>row. map_of row ''Loan_ID'' = Some (PStr loan_id)
                                  \<and> map_of row ''system_id'' = Some (PStr system_id)) (df_rows df) of
                [] \<Rightarrow> PDict []
              | row # _ \<Rightarrow> PDict row)))"

text \<open>
  The REST resolver of collekto_data_fetcher.py. Its three HTTP calls are known by their
  outcome, a value or the exception raised: \<open>AuthenticationError\<close> and \<open>APIError\<close> are
  the ones the functions raise themselves, any other is what the HTTP library raises.
\<close>

record ltfs_api =
  authenticate :: "string option \<Rightarrow> string option \<Rightarrow> exn + string"
  get_loan_by_id :: "string \<Rightarrow> string \<Rightarrow> exn + pyval"
  get_disposition_by_id :: "string \<Rightarrow> string \<Rightarrow> exn + pyval"

text \<open>The clause \<open>except (AuthenticationError, APIError)\<close>.\<close>

definition caught :: "exn \<Rightarrow> bool" where
  "caught e = (e = AuthenticationError \<or> e = APIError)"

text \<open>
  The handler of the first \<open>try\<close>, entered with the loan data fetched so far: it
  authenticates with the module's default credentials and then reads the names
  \<open>LOAN_ID\<close> and \<open>CASE_LOAN_ID\<close>, whose assignments are commented out in the module, so
  the read raises \<open>NameError\<close>, which the inner \<open>except\<close> clause does not catch.
\<close>

definition fallback_flow :: "ltfs_api \<Rightarrow> string option \<Rightarrow> string option \<Rightarrow> pyval \<Rightarrow> exn + pyval" where
  "fallback_flow api USERNAME PASSWORD loan_data =
     (case authenticate api USERNAME PASSWORD of
        Inl e \<Rightarrow> if caught e then Inr (PTuple [loan_data, PList []]) else Inl e
      | Inr token \<Rightarrow> Inl NameError)"

definition run_ltfs_flow ::
  "ltfs_api \<Rightarrow> string option \<Rightarrow> string option \<Rightarrow> string option \<Rightarrow> string option
     \<Rightarrow> string \<Rightarrow> string \<Rightarrow> exn + pyval" where
  "run_ltfs_flow api USERNAME PASSWORD username password loan_id case_loan_id =
     (let handler = (\<lambda>e loan_data.
            if caught e then fallback_flow api USERNAME PASSWORD loan_data else Inl e)
      in case authenticate api username password of
           Inl e \<Rightarrow> handler e (PList [])
         | Inr token \<Rightarrow>
             (case get_loan_by_id api token loan_id of
                Inl e \<Rightarrow> handler e (PList [])
              | Inr loan_data \<Rightarrow>
                  (case get_disposition_by_id api token case_loan_id of
                     Inl e \<Rightarrow> handler e loan_data
                   | Inr disposition_data \<Rightarrow> Inr (PTuple [loan_data, disposition_data]))))"

text \<open>The request and the response of \<open>/start-call\<close>, and an entry of the session store.
  The due amount is a number; the model keeps it as an integer.\<close>

record call_initiate =
  customer_name :: string
  system_id :: string
  loan_id :: string
  due_date :: string
  due_amount :: int
  product :: string

record call_session =
  customer :: call_initiate
  call_metadata :: pyval
  disposition :: pyval

record call_session_response =
  call_id :: string
  created_at :: string
  status :: string
  initiate :: call_initiate

text \<open>What the server reads from its environment and reaches outside the process.\<close>

record server_env =
  MOCK_MODE :: "string option"
  COLLEKTO_USERNAME :: "string option"
  COLLEKTO_PASSWORD :: "string option"
  FETCHER_USERNAME :: "string option"
  FETCHER_PASSWORD :: "string option"
  data_csv :: "exn + data_frame"
  ltfs :: ltfs_api

type_synonym session_store = "string \<rightharpoonup> call_session"

text \<open>
  \<open>start_call\<close>, with the time stamp and the fresh call id as arguments. The entry is
  stored with empty metadata first; an exception of the resolver leaves the handler at
  that point, and the framework answers the request with an error.
\<close>

definition start_call ::
  "server_env \<Rightarrow> session_store \<Rightarrow> string \<Rightarrow> string \<Rightarrow> call_initiate
     \<Rightarrow> (exn + call_session_response) \<times> session_store" where
  "start_call env store now cid data =
     (let store1 = store(cid \<mapsto> \<lparr>customer = data, call_metadata = PDict [], disposition = PDict []\<rparr>);
          more_info =
            (if \<not> falsy (MOCK_MODE env)
             then Inr (fetch_additional_customer_info (data_csv env) (loan_id data) (system_id data))
             else run_ltfs_flow (ltfs env) (FETCHER_USERNAME env) (FETCHER_PASSWORD env)
                    (COLLEKTO_USERNAME env) (COLLEKTO_PASSWORD env) (loan_id data) (system_id data))
      in case more_info of
           Inl e \<Rightarrow> (Inl e, store1)
         | Inr cleaned_data \<Rightarrow>
             (Inr \<lparr>call_id = cid, created_at = now, status = ''COMPLETED'', initiate = data\<rparr>,
              store1(cid \<mapsto> \<lparr>customer = data, call_metadata = cleaned_data, disposition = PDict []\<rparr>)))"

section \<open>A sample session\<close>

text \<open>Concrete values on which the theorems below are run.\<close>

definition demo_customer :: pyval where
  "demo_customer =
     PDict [(''Debtor_Name'', PStr ''Ravi''), (''Gender'', PStr ''Male''),
            (''EMI_Amount'', PInt 3500), (''Payment_Due_Date'', PStr ''3rd''),
            (''Product'', PStr ''2W''), (''DPD'', PInt 0)]"

definition demo_conn :: connection where
  "demo_conn h m = False"

definition demo_client :: realtime_client where
  "demo_client =
     \<lparr>connection = Some demo_conn, connection_manager = True, connected = True,
      audio_buffer = [], transcript = [], response_handler = Some send_text,
      audio_handler = Some send_audio, chat_history = [], responding = False,
      customer_data = demo_customer, conversation_done = False, instructions = [],
      upstream = [], callbacks = []\<rparr>"

definition demo_gateway :: gateway where
  "demo_gateway =
     \<lparr>rt_client = demo_client, ws_sent = [], ws_closed = False, ws_broken = False,
      client_calls = []\<rparr>"

definition demo_request :: call_initiate where
  "demo_request =
     \<lparr>customer_name = ''Ravi'', system_id = ''S1'', loan_id = ''L1'', due_date = ''3rd'',
      due_amount = 3500, product = ''2W''\<rparr>"

text \<open>Two states of the loan backend: one rejects the caller's credentials and accepts
  the module's defaults, the other rejects every login.\<close>

definition demo_ltfs_fallback :: ltfs_api where
  "demo_ltfs_fallback =
     \<lparr>authenticate = (\<lambda>u p. if u = Some ''default'' then Inr ''token'' else Inl AuthenticationError),
      get_loan_by_id = (\<lambda>token lid. Inr (PDict [(''loanId'', PStr lid)])),
      get_disposition_by_id = (\<lambda>token cid. Inr (PDict [(''caseId'', PStr cid)]))\<rparr>"

definition demo_ltfs_down :: ltfs_api where
  "demo_ltfs_down =
     \<lparr>authenticate = (\<lambda>u p. Inl AuthenticationError),
      get_loan_by_id = (\<lambda>token lid. Inl APIError),
      get_disposition_by_id = (\<lambda>token cid. Inl APIError)\<rparr>"

definition demo_env :: "string option \<Rightarrow> ltfs_api \<Rightarrow> server_env" where
  "demo_env mock api =
     \<lparr>MOCK_MODE = mock, COLLEKTO_USERNAME = Some ''user'', COLLEKTO_PASSWORD = Some ''pass'',
      FETCHER_USERNAME = Some ''default'', FETCHER_PASSWORD = Some ''secret'',
      data_csv = Inl KeyError, ltfs = api\<rparr>"

section \<open>Properties\<close>

lemma starts_with_iff: "starts_with xs ys \<longleftrightarrow> (\<exists>zs. ys = xs @ zs)"
  by (induction xs ys rule: starts_with.induct) auto

lemma str_in_iff: "str_in xs ys \<longleftrightarrow> (\<exists>ps ss. ys = ps @ xs @ ss)"
proof (induction ys)
  case Nil
  then show ?case by auto
next
  case (Cons y ys)
  show ?case
  proof
    assume "str_in xs (y # ys)"
    then consider "starts_with xs (y # ys)" | "str_in xs ys" by auto
    then show "\<exists>ps ss. y # ys = ps @ xs @ ss"
    proof cases
      case 1
      then obtain zs where "y # ys = xs @ zs" by (auto simp: starts_with_iff)
      then have "y # ys = [] @ xs @ zs" by simp
      then show ?thesis by blast
    next
      case 2
      then obtain ps ss where "ys = ps @ xs @ ss" using Cons.IH by auto
      then have "y # ys = (y # ps) @ xs @ ss" by simp
      then show ?thesis by blast
    qed
  next
    assume "\<exists>ps ss. y # ys = ps @ xs @ ss"
    then obtain ps ss where e: "y # ys = ps @ xs @ ss" by auto
    show "str_in xs (y # ys)"
    proof (cases ps)
      case Nil
      then have "starts_with xs (y # ys)" using e by (auto simp: starts_with_iff)
      then show ?thesis by simp
    next
      case (Cons p ps')
      then have "ys = ps' @ xs @ ss" using e by simp
      then have "str_in xs ys" using Cons.IH by blast
      then show ?thesis by simp
    qed
  qed
qed

text \<open>
  C8. \<open>check_payment_status\<close> returns \<open>payment completed\<close> on a days-past-due value equal
  to zero and \<open>payment not completed\<close> on every other value, and the dispatch of a tool
  name other than \<open>check_payment_status\<close> gives \<open>Unknown tool\<close>.
\<close>

theorem check_payment_status_dispatch:
  "check_payment_status (PInt 0) = ''payment completed''
   \<and> (\<forall>v. check_payment_status v =
          (if eq_zero v then ''payment completed'' else ''payment not completed''))
   \<and> (\<forall>n. n \<noteq> 0 \<longrightarrow> check_payment_status (PInt n) = ''payment not completed'')
   \<and> (\<forall>name args. name \<noteq> ''check_payment_status''
          \<longrightarrow> dispatch_tool name args = ''Unknown tool'')"
  by (simp add: check_payment_status_def dispatch_tool_def)

theorem check_payment_status_dispatch_witness:
  "check_payment_status (PInt 0) = ''payment completed''
   \<and> check_payment_status (PInt 7) = ''payment not completed''
   \<and> check_payment_status (PStr ''0'') = ''payment not completed''
   \<and> ''get_balance'' \<noteq> ''check_payment_status''
   \<and> dispatch_tool ''get_balance'' (PDict [(''DPD'', PInt 0)]) = ''Unknown tool''"
  using check_payment_status_dispatch by simp

subsection \<open>The prompt builder\<close>

lemma of_char_lower_char:
  "(of_char (lower_char c) :: nat) = (let n = (of_char c :: nat) in
     if (65 \<le> n \<and> n \<le> 90) \<or> (192 \<le> n \<and> n \<le> 222 \<and> n \<noteq> 215) then n + 32 else n)"
  by (auto simp: lower_char_def Let_def)

lemma char_eq_code: "(c = d) = ((of_char c :: nat) = of_char d)"
  by simp

lemma lower_char_m: "lower_char c = CHR ''m'' \<longleftrightarrow> c = CHR ''m'' \<or> c = CHR ''M''"
  unfolding char_eq_code[of _ "CHR ''m''"] char_eq_code[of _ "CHR ''M''"]
    of_char_lower_char Let_def
  by (simp split: if_splits) arith

lemma lower_char_a: "lower_char c = CHR ''a'' \<longleftrightarrow> c = CHR ''a'' \<or> c = CHR ''A''"
  unfolding char_eq_code[of _ "CHR ''a''"] char_eq_code[of _ "CHR ''A''"]
    of_char_lower_char Let_def
  by (simp split: if_splits) arith

lemma lower_char_l: "lower_char c = CHR ''l'' \<longleftrightarrow> c = CHR ''l'' \<or> c = CHR ''L''"
  unfolding char_eq_code[of _ "CHR ''l''"] char_eq_code[of _ "CHR ''L''"]
    of_char_lower_char Let_def
  by (simp split: if_splits) arith

lemma lower_char_e: "lower_char c = CHR ''e'' \<longleftrightarrow> c = CHR ''e'' \<or> c = CHR ''E''"
  unfolding char_eq_code[of _ "CHR ''e''"] char_eq_code[of _ "CHR ''E''"]
    of_char_lower_char Let_def
  by (simp split: if_splits) arith

lemma lower_male: "lower g = ''male'' \<longleftrightarrow> ci_male g"
  by (auto simp: lower_def ci_male_def lower_char_m lower_char_a lower_char_l lower_char_e
      split: list.splits)

lemma ebind_Inr: "ebind m f = Inr r \<longleftrightarrow> (\<exists>v. m = Inr v \<and> f v = Inr r)"
  by (cases m) (auto simp: ebind_def)

lemma ebind_Inl: "ebind m f = Inl e \<longleftrightarrow> m = Inl e \<or> (\<exists>v. m = Inr v \<and> f v = Inl e)"
  by (cases m) (auto simp: ebind_def)

lemma ebind_simps [simp]: "ebind (Inl e) f = Inl e" "ebind (Inr v) f = f v"
  by (simp_all add: ebind_def)

lemma lower_method_Inr: "lower_method v = Inr l \<Longrightarrow> \<exists>g. v = PStr g \<and> l = lower g"
  by (cases v) auto

lemma get_system_prompt_gender:
  assumes "get_system_prompt fmt rec = Inr p"
  shows "\<exists>g. getitem rec ''Gender'' = Inr (PStr g)
     \<and> salutations p = replicate 4 (if ci_male g then ''Mr.'' else ''Ms.'')"
proof -
  from assms obtain gender lowered where
    g: "getitem rec ''Gender'' = Inr gender" and
    l: "lower_method gender = Inr lowered" and
    s: "salutations p = replicate 4 (if lowered = ''male'' then ''Mr.'' else ''Ms.'')"
    unfolding get_system_prompt_def Let_def ebind_Inr
    by (auto simp: numeral_eq_Suc)
  from l obtain gs where "gender = PStr gs" "lowered = lower gs"
    using lower_method_Inr by blast
  with g s show ?thesis by (auto simp: lower_male)
qed

text \<open>
  C9. A customer record whose gender is \<open>male\<close> up to case gets instructions whose
  honorific is \<open>Mr.\<close> at each of the four places the script uses one; every other
  gender string gets \<open>Ms.\<close>. The instructions exist once the record has the five fields
  and the EMI amount formats.
\<close>

theorem get_system_prompt_honorific:
  assumes "getitem rec ''Debtor_Name'' = Inr name"
    and "getitem rec ''Gender'' = Inr (PStr g)"
    and "getitem rec ''EMI_Amount'' = Inr emi"
    and "getitem rec ''Payment_Due_Date'' = Inr due"
    and "getitem rec ''Product'' = Inr ltype"
    and "fmt emi = Inr formatted"
  shows "\<exists>p. get_system_prompt fmt rec = Inr p
     \<and> salutations p = replicate 4 (if ci_male g then ''Mr.'' else ''Ms.'')"
proof -
  obtain p where p: "get_system_prompt fmt rec = Inr p"
    using assms by (simp add: get_system_prompt_def Let_def)
  from get_system_prompt_gender [OF p] assms(2) show ?thesis
    using p by auto
qed

theorem get_system_prompt_honorific_witness:
  "salutations (projr (get_system_prompt (\<lambda>_. Inr ''3,500.00'')
      (PDict [(''Debtor_Name'', PStr ''Ravi''), (''Gender'', PStr ''MaLe''),
              (''EMI_Amount'', PInt 3500), (''Payment_Due_Date'', PStr ''3rd''),
              (''Product'', PStr ''2W'')])))
     = [''Mr.'', ''Mr.'', ''Mr.'', ''Mr.'']
   \<and> salutations (projr (get_system_prompt (\<lambda>_. Inr ''3,500.00'')
      (PDict [(''Debtor_Name'', PStr ''Asha''), (''Gender'', PStr ''F''),
              (''EMI_Amount'', PInt 3500), (''Payment_Due_Date'', PStr ''3rd''),
              (''Product'', PStr ''2W'')])))
     = [''Ms.'', ''Ms.'', ''Ms.'', ''Ms.'']"
  using get_system_prompt_honorific [of
      "PDict [(''Debtor_Name'', PStr ''Ravi''), (''Gender'', PStr ''MaLe''),
              (''EMI_Amount'', PInt 3500), (''Payment_Due_Date'', PStr ''3rd''),
              (''Product'', PStr ''2W'')]"
      "PStr ''Ravi''" "''MaLe''" "PInt 3500" "PStr ''3rd''" "PStr ''2W''"
      "\<lambda>_. Inr ''3,500.00''" "''3,500.00''"]
    get_system_prompt_honorific [of
      "PDict [(''Debtor_Name'', PStr ''Asha''), (''Gender'', PStr ''F''),
              (''EMI_Amount'', PInt 3500), (''Payment_Due_Date'', PStr ''3rd''),
              (''Product'', PStr ''2W'')]"
      "PStr ''Asha''" "''F''" "PInt 3500" "PStr ''3rd''" "PStr ''2W''"
      "\<lambda>_. Inr ''3,500.00''" "''3,500.00''"]
  by (auto simp: ci_male_def numeral_eq_Suc)

subsection \<open>The base64 codec\<close>


lemma b64_index_char: "n < 64 \<Longrightarrow> b64_index (b64_char n) = Some n"
  by (auto simp: b64_index_def b64_char_def Let_def)

lemma b64_char_not_pad: "n < 64 \<Longrightarrow> b64_char n \<noteq> CHR ''=''"
  unfolding char_eq_code[of _ "CHR ''=''"]
  by (auto simp: b64_char_def)

lemma b64_char_ascii: "n < 64 \<Longrightarrow> (of_char (b64_char n) :: nat) < 128"
  by (auto simp: b64_char_def)

lemma a2b_base64_alphabet:
  "n < 64 \<Longrightarrow> a2b_base64 q l p out (b64_char n # rest) =
   (if q = 0 then a2b_base64 1 n 0 out rest
    else if q = 1 then
      a2b_base64 2 (n mod 16) 0 (out @ [of_nat (l * 4 + n div 16)]) rest
    else if q = 2 then
      a2b_base64 3 (n mod 4) 0 (out @ [of_nat (l * 16 + n div 4)]) rest
    else
      a2b_base64 0 0 0 (out @ [of_nat (l * 64 + n)]) rest)"
  by (simp add: b64_index_char b64_char_not_pad)

lemma byte_lt: "unat (a::byte) < 256"
  using unsigned_less[of a, where 'a=nat] by simp

lemma div16_lt: "n < 256 \<Longrightarrow> n div 16 < (16::nat)"
  by (simp add: less_mult_imp_div_less)

lemma div64_lt: "n < 256 \<Longrightarrow> n div 64 < (4::nat)"
  by (simp add: less_mult_imp_div_less)

lemma div4_lt: "n < 256 \<Longrightarrow> n div 4 < (64::nat)"
  by (simp add: less_mult_imp_div_less)

lemma pack_lt: "x < a \<Longrightarrow> y < k \<Longrightarrow> x * k + y < a * (k::nat)"
proof -
  assume "x < a" "y < k"
  then have "Suc x \<le> a" by simp
  then have "Suc x * k \<le> a * k" by (rule mult_le_mono1)
  with \<open>y < k\<close> show ?thesis by simp
qed

lemma sextet1: "unat (a::byte) div 4 < 64"
  by (rule div4_lt [OF byte_lt])

lemma sextet2: "unat (a::byte) mod 4 * 16 + unat (b::byte) div 16 < 64"
  using pack_lt[of "unat a mod 4" 4 "unat b div 16" 16] div16_lt[OF byte_lt[of b]] by simp

lemma sextet3: "unat (b::byte) mod 16 * 4 + unat (c::byte) div 64 < 64"
  using pack_lt[of "unat b mod 16" 16 "unat c div 64" 4] div64_lt[OF byte_lt[of c]] by simp

lemma sextet4: "unat (c::byte) mod 64 < 64"
  by simp

lemma sextet2_last: "unat (a::byte) mod 4 * 16 < 64"
  using pack_lt[of "unat a mod 4" 4 0 16] by simp

lemma sextet3_last: "unat (b::byte) mod 16 * 4 < 64"
  using pack_lt[of "unat b mod 16" 16 0 4] by simp

lemma byte1: "(word_of_nat (unat a div 4 * 4 + (unat a mod 4 * 16 + unat (b::byte) div 16) div 16) :: byte) = a"
proof -
  have "(unat a mod 4 * 16 + unat b div 16) div 16 = unat a mod 4"
    using div16_lt[OF byte_lt[of b]] by simp
  then show ?thesis by simp
qed

lemma byte2: "(word_of_nat ((unat a mod 4 * 16 + unat (b::byte) div 16) mod 16 * 16
      + (unat b mod 16 * 4 + unat (c::byte) div 64) div 4) :: byte) = b"
proof -
  have 1: "(unat a mod 4 * 16 + unat b div 16) mod 16 = unat b div 16"
    using div16_lt[OF byte_lt[of b]] by simp
  have 2: "(unat b mod 16 * 4 + unat c div 64) div 4 = unat b mod 16"
    using div64_lt[OF byte_lt[of c]] by simp
  show ?thesis unfolding 1 2 by simp
qed

lemma byte3: "(word_of_nat ((unat (b::byte) mod 16 * 4 + unat (c::byte) div 64) mod 4 * 64
      + unat c mod 64) :: byte) = c"
proof -
  have 1: "(unat b mod 16 * 4 + unat c div 64) mod 4 = unat c div 64"
    using div64_lt[OF byte_lt[of c]] by simp
  show ?thesis unfolding 1 by simp
qed

lemma byte1_last: "(word_of_nat (unat a div 4 * 4 + (unat (a::byte) mod 4 * 16) div 16) :: byte) = a"
  by simp

lemma byte2_last: "(word_of_nat ((unat a mod 4 * 16 + unat (b::byte) div 16) mod 16 * 16
      + (unat b mod 16 * 4) div 4) :: byte) = b"
proof -
  have 1: "(unat a mod 4 * 16 + unat b div 16) mod 16 = unat b div 16"
    using div16_lt[OF byte_lt[of b]] by simp
  show ?thesis unfolding 1 by simp
qed

lemma a2b_base64_quad:
  assumes "s1 < 64" "s2 < 64" "s3 < 64" "s4 < 64"
  shows "a2b_base64 0 l 0 out (b64_char s1 # b64_char s2 # b64_char s3 # b64_char s4 # rest)
     = a2b_base64 0 0 0 (out @ [of_nat (s1 * 4 + s2 div 16), of_nat (s2 mod 16 * 16 + s3 div 4),
          of_nat (s3 mod 4 * 64 + s4)]) rest"
  by (simp only: a2b_base64_alphabet assms) simp

lemma a2b_base64_triple:
  assumes "s1 < 64" "s2 < 64" "s3 < 64"
  shows "a2b_base64 0 l 0 out [b64_char s1, b64_char s2, b64_char s3, CHR ''='']
     = Inr (out @ [of_nat (s1 * 4 + s2 div 16), of_nat (s2 mod 16 * 16 + s3 div 4)])"
  by (simp only: a2b_base64_alphabet assms) simp

lemma a2b_base64_double:
  assumes "s1 < 64" "s2 < 64"
  shows "a2b_base64 0 l 0 out [b64_char s1, b64_char s2, CHR ''='', CHR ''='']
     = Inr (out @ [of_nat (s1 * 4 + s2 div 16)])"
  by (simp only: a2b_base64_alphabet assms) simp

lemma a2b_base64_b64encode: "a2b_base64 0 l 0 out (b64encode bs) = Inr (out @ bs)"
proof (induction bs arbitrary: l out rule: b64encode.induct)
  case (1 a b c rest)
  have "a2b_base64 0 l 0 out (b64encode (a # b # c # rest))
      = a2b_base64 0 0 0 (out @ [a, b, c]) (b64encode rest)"
    by (simp only: b64encode.simps append_Cons append_Nil a2b_base64_quad
        sextet1 sextet2 sextet3 sextet4 byte1 byte2 byte3)
  then show ?case using 1[of 0 "out @ [a,b,c]"] by simp
next
  case (2 a b)
  show ?case
    by (simp only: b64encode.simps a2b_base64_triple sextet1 sextet2 sextet3_last byte1 byte2_last)
next
  case (3 a)
  show ?case
    by (simp only: b64encode.simps a2b_base64_double sextet1 sextet2_last byte1_last)
next
  case 4
  show ?case by simp
qed

lemma b64encode_ascii: "\<forall>c \<in> set (b64encode bs). (of_char c :: nat) < 128"
  by (induction bs rule: b64encode.induct)
     (simp_all add: b64_char_ascii sextet1 sextet2 sextet3 sextet4 sextet2_last sextet3_last)

lemma b64decode_b64encode: "b64decode (b64encode bs) = Inr bs"
  using b64encode_ascii[of bs] a2b_base64_b64encode[of 0 "[]" bs]
  by (auto simp: b64decode_def)

subsection \<open>The event loop\<close>


lemma finalize_turn_Ok:
  assumes "\<forall>h. response_handler c = Some h \<longrightarrow> \<not> h (strip (transcript c))"
  shows "\<exists>c'. finalize_turn c = Ok c'
     \<and> conversation_done c' = str_in ''[END_CONVERSATION]'' (strip (transcript c))
     \<and> responding c' = False \<and> transcript c' = []
     \<and> chat_history c' = chat_history c @ [(''assistant'', strip (transcript c))]
     \<and> upstream c' = upstream c"
  using assms by (cases "response_handler c") (auto simp: finalize_turn_def Let_def)

lemma finalize_turn_result:
  "finalize_turn c = Ok c' \<Longrightarrow>
     conversation_done c' = str_in ''[END_CONVERSATION]'' (strip (transcript c))
     \<and> \<not> responding c' \<and> upstream c' = upstream c"
  by (cases "response_handler c") (auto simp: finalize_turn_def Let_def split: if_splits)

lemma finalize_turn_raised:
  "finalize_turn c = Raised e c' \<Longrightarrow>
     conversation_done c' = conversation_done c \<and> responding c' = responding c
     \<and> upstream c' = upstream c"
  by (cases "response_handler c") (auto simp: finalize_turn_def Let_def split: if_splits)

text \<open>
  C2. When a response-done event finds a non-empty stripped transcript (and the text
  callback, if there is one, returns), the event is processed and the conversation-done
  flag holds afterwards exactly when that text contains \<open>[END_CONVERSATION]\<close>; without
  the marker the flag is false.
\<close>

theorem response_done_sets_conversation_done:
  assumes "strip (transcript (client s)) = text" and "text \<noteq> []"
    and "\<forall>h. response_handler (client s) = Some h \<longrightarrow> \<not> h text"
  shows "\<exists>s'. handle_event conn s ResponseDone = Ok s'
     \<and> (conversation_done (client s') \<longleftrightarrow> (\<exists>ps ss. text = ps @ ''[END_CONVERSATION]'' @ ss))"
proof -
  from assms(1,3) have "\<forall>h. response_handler (client s) = Some h \<longrightarrow> \<not> h (strip (transcript (client s)))"
    by simp
  from finalize_turn_Ok [OF this] obtain c' where
    "finalize_turn (client s) = Ok c'"
    "conversation_done c' = str_in ''[END_CONVERSATION]'' text"
    using assms(1) by auto
  then show ?thesis using assms(1,2) by (simp add: str_in_iff)
qed

text \<open>Two transcripts of the sample session.\<close>

lemma strip_bye: "strip '' Dhanyavaad. [END_CONVERSATION] '' = ''Dhanyavaad. [END_CONVERSATION]''"
  by (simp add: strip_def is_space_def)

lemma strip_hello: "strip ''Namaste '' = ''Namaste''"
  by (simp add: strip_def is_space_def)

theorem response_done_sets_conversation_done_witness:
  "conversation_done (client (state_of (handle_event demo_conn
       \<lparr>client = demo_client\<lparr>transcript := '' Dhanyavaad. [END_CONVERSATION] ''\<rparr>,
        pending_tool_calls = Map.empty\<rparr> ResponseDone)))
   \<and> \<not> conversation_done (client (state_of (handle_event demo_conn
       \<lparr>client = demo_client\<lparr>transcript := ''Namaste ''\<rparr>,
        pending_tool_calls = Map.empty\<rparr> ResponseDone)))"
proof -
  let ?s1 = "\<lparr>client = demo_client\<lparr>transcript := '' Dhanyavaad. [END_CONVERSATION] ''\<rparr>,
        pending_tool_calls = Map.empty\<rparr>"
  let ?s2 = "\<lparr>client = demo_client\<lparr>transcript := ''Namaste ''\<rparr>,
        pending_tool_calls = Map.empty\<rparr>"
  have in1: "\<exists>ps ss. ''Dhanyavaad. [END_CONVERSATION]'' = ps @ ''[END_CONVERSATION]'' @ ss"
    unfolding str_in_iff [symmetric] by simp
  have in2: "\<not> (\<exists>ps ss. ''Namaste'' = ps @ ''[END_CONVERSATION]'' @ ss)"
    unfolding str_in_iff [symmetric] by simp
  have h: "\<forall>h. response_handler (client ?s1) = Some h \<longrightarrow> \<not> h t"
      "\<forall>h. response_handler (client ?s2) = Some h \<longrightarrow> \<not> h t" for t
    by (simp_all add: demo_client_def send_text_def)
  have t1: "strip (transcript (client ?s1)) = ''Dhanyavaad. [END_CONVERSATION]''"
    by (simp add: strip_bye)
  have t2: "strip (transcript (client ?s2)) = ''Namaste''"
    by (simp add: strip_hello)
  from response_done_sets_conversation_done [OF t1 _ h(1), of demo_conn] in1
  have 1: "conversation_done (client (state_of (handle_event demo_conn ?s1 ResponseDone)))"
    by (auto simp del: handle_event.simps)
  from response_done_sets_conversation_done [OF t2 _ h(2), of demo_conn] in2
  have 2: "\<not> conversation_done (client (state_of (handle_event demo_conn ?s2 ResponseDone)))"
    by (auto simp del: handle_event.simps)
  from 1 2 show ?thesis by blast
qed

lemma create_response_conversation_done [simp]:
  "conversation_done (create_response c) = conversation_done c"
  by (auto simp: create_response_def send_def Let_def split: option.splits)

lemma send_conversation_done:
  "conversation_done (state_of (send conn c m)) = conversation_done c"
  by (simp add: send_def Let_def)

lemma run_tool_call_conversation_done:
  "conversation_done (client (state_of (run_tool_call conn s cid call0)))
     = conversation_done (client s)"
  by (auto simp: run_tool_call_def send_def Let_def split: pyval.splits)

lemma handle_event_conversation_done:
  "ev \<noteq> ResponseDone \<Longrightarrow>
     conversation_done (client (state_of (handle_event conn s ev))) = conversation_done (client s)"
  by (cases ev) (auto simp: Let_def run_tool_call_conversation_done split: option.splits sum.splits)

lemma conversation_done_recomputed:
  assumes "strip (transcript (client s)) \<noteq> []"
    and "\<forall>h. response_handler (client s) = Some h \<longrightarrow> \<not> h (strip (transcript (client s)))"
  shows "\<forall>b. \<exists>s'. handle_event conn (s\<lparr>client := (client s)\<lparr>conversation_done := b\<rparr>\<rparr>) ResponseDone = Ok s'
       \<and> conversation_done (client s') = str_in ''[END_CONVERSATION]'' (strip (transcript (client s)))"
proof
  fix b
  let ?c = "(client s)\<lparr>conversation_done := b\<rparr>"
  have "\<forall>h. response_handler ?c = Some h \<longrightarrow> \<not> h (strip (transcript ?c))"
    using assms(2) by simp
  from finalize_turn_Ok [OF this] obtain c' where
    "finalize_turn ?c = Ok c'"
    "conversation_done c' = str_in ''[END_CONVERSATION]'' (strip (transcript (client s)))"
    by auto
  then show "\<exists>s'. handle_event conn (s\<lparr>client := ?c\<rparr>) ResponseDone = Ok s'
       \<and> conversation_done (client s') = str_in ''[END_CONVERSATION]'' (strip (transcript (client s)))"
    using assms(1) by simp
qed


text \<open>
  C10. The conversation-done flag is not latched. A response-done event with a
  non-empty transcript sets it to the presence of \<open>[END_CONVERSATION]\<close> in that turn's
  text whatever its value was, so a flag that was true becomes false on a turn without
  the marker; no other event and no forwarding method changes the flag.
\<close>

theorem conversation_done_not_latched:
  assumes "strip (transcript (client s)) \<noteq> []"
    and "\<forall>h. response_handler (client s) = Some h \<longrightarrow> \<not> h (strip (transcript (client s)))"
  shows "(\<forall>b. \<exists>s'. handle_event conn (s\<lparr>client := (client s)\<lparr>conversation_done := b\<rparr>\<rparr>) ResponseDone = Ok s'
            \<and> conversation_done (client s')
                = str_in ''[END_CONVERSATION]'' (strip (transcript (client s))))
     \<and> (\<forall>ev s0. ev \<noteq> ResponseDone \<longrightarrow>
            conversation_done (client (state_of (handle_event conn s0 ev)))
              = conversation_done (client s0))
     \<and> (\<forall>c chunk. conversation_done (state_of (append_input_audio c chunk)) = conversation_done c
            \<and> conversation_done (state_of (commit_audio c)) = conversation_done c
            \<and> conversation_done (create_response c) = conversation_done c)"
  using conversation_done_recomputed [OF assms] handle_event_conversation_done
  by (auto simp: append_input_audio_def commit_audio_def send_conversation_done
      simp del: handle_event.simps split: option.splits)

theorem conversation_done_not_latched_witness:
  "conversation_done (demo_client\<lparr>transcript := ''Namaste '', conversation_done := True\<rparr>)
   \<and> \<not> conversation_done (client (state_of (handle_event demo_conn
         \<lparr>client = demo_client\<lparr>transcript := ''Namaste '', conversation_done := True\<rparr>,
          pending_tool_calls = Map.empty\<rparr> ResponseDone)))"
proof -
  let ?s = "\<lparr>client = demo_client\<lparr>transcript := ''Namaste ''\<rparr>,
          pending_tool_calls = Map.empty\<rparr>"
  have 1: "strip (transcript (client ?s)) \<noteq> []"
    by (simp add: strip_hello)
  have 2: "\<forall>h. response_handler (client ?s) = Some h \<longrightarrow> \<not> h (strip (transcript (client ?s)))"
    by (simp add: demo_client_def send_text_def)
  from conversation_done_not_latched [OF 1 2, of demo_conn]
  obtain s' where "handle_event demo_conn (?s\<lparr>client := (client ?s)\<lparr>conversation_done := True\<rparr>\<rparr>)
        ResponseDone = Ok s'"
    "conversation_done (client s') = str_in ''[END_CONVERSATION]'' (strip (transcript (client ?s)))"
    by blast
  moreover have "?s\<lparr>client := (client ?s)\<lparr>conversation_done := True\<rparr>\<rparr>
      = \<lparr>client = demo_client\<lparr>transcript := ''Namaste '', conversation_done := True\<rparr>,
          pending_tool_calls = Map.empty\<rparr>"
    by simp
  ultimately show ?thesis
    by (simp add: strip_hello del: handle_event.simps)
qed

lemma init_client_responding: "init_client fmt rh ah d = Inr c0 \<Longrightarrow> \<not> responding c0"
  by (auto simp: init_client_def ebind_Inr)

lemma send_responding: "responding (state_of (send conn c m)) = responding c"
  by (simp add: send_def Let_def)

lemma run_tool_call_responding:
  "responding (client (state_of (run_tool_call conn s cid call0))) = responding (client s)"
  by (auto simp: run_tool_call_def send_def Let_def split: pyval.splits)

lemma finalize_turn_responding:
  "\<not> responding c \<Longrightarrow> \<not> responding (state_of (finalize_turn c))"
  by (cases "response_handler c") (auto simp: finalize_turn_def Let_def)

lemma handle_event_responding:
  assumes "\<not> responding (client s)" and "\<forall>t. ev \<noteq> InputAudioTranscriptionCompleted t"
  shows "\<not> responding (client (state_of (handle_event conn s ev)))"
proof (cases ev)
  case ResponseDone
  then show ?thesis
    using assms(1) finalize_turn_responding [of "client s"]
    by (cases "finalize_turn (client s)") auto
next
  case (ResponseFunctionCallArgumentsDone cid)
  then show ?thesis
    using assms(1) by (auto simp: run_tool_call_responding split: option.splits)
qed (use assms in \<open>auto simp: Let_def split: option.splits sum.splits\<close>)

lemma response_done_responding:
  assumes "strip (transcript (client s)) \<noteq> []" and "handle_event conn s ResponseDone = Ok s'"
  shows "\<not> responding (client s')"
  using assms finalize_turn_result [of "client s"]
  by (cases "finalize_turn (client s)") auto

lemma create_response_responding: "responding c \<Longrightarrow> create_response c = c"
  by (simp add: create_response_def split: option.splits)

text \<open>
  C1 (amended). The responding flag is false in a newly constructed client and stays
  false under the forwarding of audio and under every event that does not request a
  response; it is false after a response-done event that is processed with a non-empty
  stripped transcript; and \<open>create_response\<close> on a client whose flag is true changes
  nothing, so it issues no second response-create operation.
\<close>

theorem responding_flag_gate:
  "(init_client fmt rh ah d = Inr c0 \<longrightarrow> \<not> responding c0)
   \<and> (\<not> responding (client s) \<and> (\<forall>t. ev \<noteq> InputAudioTranscriptionCompleted t)
        \<longrightarrow> \<not> responding (client (state_of (handle_event conn s ev))))
   \<and> (responding (state_of (append_input_audio c chunk)) = responding c
        \<and> responding (state_of (commit_audio c)) = responding c)
   \<and> (strip (transcript (client s)) \<noteq> [] \<and> handle_event conn s ResponseDone = Ok s'
        \<longrightarrow> \<not> responding (client s'))
   \<and> (responding c \<longrightarrow> create_response c = c)"
  using init_client_responding [of fmt rh ah d c0] handle_event_responding [of s ev conn]
    response_done_responding [of s conn s'] create_response_responding [of c]
  by (auto simp: append_input_audio_def commit_audio_def send_responding
      simp del: handle_event.simps split: option.splits)

text \<open>
  The flag is not cleared by every response-done event: after \<open>create_response\<close>, a
  response-done event that finds the transcript buffer empty is processed and leaves the
  flag true.
\<close>

theorem responding_flag_gate_counterexample:
  "raised (handle_event demo_conn
      \<lparr>client = create_response demo_client, pending_tool_calls = Map.empty\<rparr> ResponseDone) = None
   \<and> responding (client (state_of (handle_event demo_conn
      \<lparr>client = create_response demo_client, pending_tool_calls = Map.empty\<rparr> ResponseDone)))"
  by (simp add: create_response_def demo_client_def send_def demo_conn_def strip_def)


theorem responding_flag_gate_witness:
  "\<not> responding (projr (init_client (\<lambda>_. Inr ''3,500.00'') (Some send_text) (Some send_audio)
        demo_customer))
   \<and> responding (create_response demo_client)
   \<and> create_response (create_response demo_client) = create_response demo_client
   \<and> upstream (create_response (create_response demo_client)) = [ResponseCreate]
   \<and> \<not> responding (client (state_of (handle_event demo_conn
         \<lparr>client = (create_response demo_client)\<lparr>transcript := ''Namaste ''\<rparr>,
          pending_tool_calls = Map.empty\<rparr> ResponseDone)))"
proof -
  let ?c = "create_response demo_client"
  let ?s = "\<lparr>client = ?c\<lparr>transcript := ''Namaste ''\<rparr>, pending_tool_calls = Map.empty\<rparr>"
  let ?ini = "projr (init_client (\<lambda>_. Inr ''3,500.00'') (Some send_text) (Some send_audio)
        demo_customer)"
  have i: "init_client (\<lambda>_. Inr ''3,500.00'') (Some send_text) (Some send_audio) demo_customer
       = Inr ?ini"
    by (simp add: init_client_def get_system_prompt_def demo_customer_def Let_def)
  have r: "responding ?c"
    by (simp add: create_response_def demo_client_def send_def demo_conn_def)
  have u: "upstream ?c = [ResponseCreate]"
    by (simp add: create_response_def demo_client_def send_def demo_conn_def)
  have t: "strip (transcript (client ?s)) \<noteq> []"
    by (simp add: strip_hello)
  have h: "response_handler ?c = Some send_text"
    by (simp add: create_response_def demo_client_def send_def demo_conn_def)
  have "\<forall>h. response_handler (client ?s) = Some h \<longrightarrow> \<not> h (strip (transcript (client ?s)))"
    using h by (simp add: send_text_def)
  from finalize_turn_Ok [OF this] obtain c' where "finalize_turn (client ?s) = Ok c'"
    by blast
  then have o: "handle_event demo_conn ?s ResponseDone
      = Ok (state_of (handle_event demo_conn ?s ResponseDone))"
    using t by simp
  note g = responding_flag_gate [of "\<lambda>_. Inr ''3,500.00''" "Some send_text" "Some send_audio"
      demo_customer ?ini ?s ResponseDone demo_conn ?c "[]"
      "state_of (handle_event demo_conn ?s ResponseDone)"]
  from g i have 1: "\<not> responding ?ini" by blast
  from g r have 2: "create_response ?c = ?c" by blast
  from g t o have 3: "\<not> responding (client (state_of (handle_event demo_conn ?s ResponseDone)))"
    by blast
  from 1 r 2 u 3 show ?thesis by simp
qed

lemma run_tool_call_Ok:
  assumes "run_tool_call conn s cid call0 = Ok s'"
  shows "pending_tool_calls s' = (pending_tool_calls s)(cid := None)
     \<and> upstream (client s') = upstream (client s) @
          [FunctionCallOutput cid (json_dumps (dispatch_tool (tc_name call0) (customer_data (client s)))),
           ResponseCreate]"
  using assms
  by (auto simp: run_tool_call_def send_def Let_def split: pyval.splits if_splits)

lemma run_tool_call_Raised:
  assumes "run_tool_call conn s cid call0 = Raised e s'"
  shows "pending_tool_calls s' cid \<noteq> None"
  using assms
  by (auto simp: run_tool_call_def send_def Let_def split: pyval.splits if_splits)

lemma args_done_absent:
  "pending_tool_calls s cid = None \<Longrightarrow>
     handle_event conn s (ResponseFunctionCallArgumentsDone cid) = Ok s"
  by simp

lemma args_done_Ok:
  assumes "handle_event conn s (ResponseFunctionCallArgumentsDone cid) = Ok s'"
  shows "pending_tool_calls s' = (pending_tool_calls s)(cid := None)"
proof (cases "pending_tool_calls s cid")
  case None
  with assms have "s' = s" by simp
  with None show ?thesis by auto
next
  case (Some call0)
  with assms have "run_tool_call conn s cid call0 = Ok s'" by simp
  from run_tool_call_Ok [OF this] show ?thesis by simp
qed

lemma args_done_twice:
  "event_loop conn s [ResponseFunctionCallArgumentsDone cid, ResponseFunctionCallArgumentsDone cid]
     = event_loop conn s [ResponseFunctionCallArgumentsDone cid]"
proof (cases "handle_event conn s (ResponseFunctionCallArgumentsDone cid)")
  case (Ok s')
  from args_done_Ok [OF this] have "pending_tool_calls s' cid = None" by simp
  then have "handle_event conn s' (ResponseFunctionCallArgumentsDone cid) = Ok s'"
    by (rule args_done_absent)
  with Ok show ?thesis by (simp del: handle_event.simps)
next
  case (Raised e s')
  then show ?thesis by (simp del: handle_event.simps)
qed

text \<open>
  C7. Two consecutive arguments-done events with the same call id leave the loop where
  the first alone leaves it: the second is a no-op. An arguments-done event whose call
  id is not pending changes nothing (no tool, no operation upstream, no response
  request). For a pending call id the entry is removed once, after the tool result and
  the response request have been issued upstream; when an exception ends the event
  before that, the entry is still there.
\<close>

theorem tool_call_done_once:
  "event_loop conn s [ResponseFunctionCallArgumentsDone cid, ResponseFunctionCallArgumentsDone cid]
     = event_loop conn s [ResponseFunctionCallArgumentsDone cid]
   \<and> (pending_tool_calls s cid = None \<longrightarrow>
        handle_event conn s (ResponseFunctionCallArgumentsDone cid) = Ok s)
   \<and> (\<forall>call0 s'. pending_tool_calls s cid = Some call0
          \<and> handle_event conn s (ResponseFunctionCallArgumentsDone cid) = Ok s' \<longrightarrow>
        pending_tool_calls s' = (pending_tool_calls s)(cid := None)
        \<and> upstream (client s') = upstream (client s) @
            [FunctionCallOutput cid
               (json_dumps (dispatch_tool (tc_name call0) (customer_data (client s)))),
             ResponseCreate])
   \<and> (\<forall>e s'. handle_event conn s (ResponseFunctionCallArgumentsDone cid) = Raised e s' \<longrightarrow>
        pending_tool_calls s' cid \<noteq> None)"
proof (intro conjI allI impI)
  show "event_loop conn s [ResponseFunctionCallArgumentsDone cid, ResponseFunctionCallArgumentsDone cid]
     = event_loop conn s [ResponseFunctionCallArgumentsDone cid]"
    by (rule args_done_twice)
next
  assume "pending_tool_calls s cid = None"
  then show "handle_event conn s (ResponseFunctionCallArgumentsDone cid) = Ok s"
    by (rule args_done_absent)
next
  fix call0 s'
  assume a: "pending_tool_calls s cid = Some call0
          \<and> handle_event conn s (ResponseFunctionCallArgumentsDone cid) = Ok s'"
  then have r: "run_tool_call conn s cid call0 = Ok s'" by auto
  from run_tool_call_Ok [OF r]
  show "pending_tool_calls s' = (pending_tool_calls s)(cid := None)"
    and "upstream (client s') = upstream (client s) @
            [FunctionCallOutput cid
               (json_dumps (dispatch_tool (tc_name call0) (customer_data (client s)))),
             ResponseCreate]"
    by simp_all
next
  fix e s'
  assume a: "handle_event conn s (ResponseFunctionCallArgumentsDone cid) = Raised e s'"
  then obtain call0 where "pending_tool_calls s cid = Some call0"
    by (cases "pending_tool_calls s cid") auto
  with a have "run_tool_call conn s cid call0 = Raised e s'" by simp
  from run_tool_call_Raised [OF this] show "pending_tool_calls s' cid \<noteq> None" .
qed


theorem tool_call_done_once_witness:
  "pending_tool_calls
      (state_of (handle_event demo_conn
         \<lparr>client = demo_client,
          pending_tool_calls = [''call_1'' \<mapsto>
            \<lparr>tc_name = ''check_payment_status'', tc_call_id = ''call_1'', tc_arguments = PDict []\<rparr>]\<rparr>
         (ResponseFunctionCallArgumentsDone ''call_1''))) ''call_1'' = None
   \<and> upstream (client
      (state_of (handle_event demo_conn
         \<lparr>client = demo_client,
          pending_tool_calls = [''call_1'' \<mapsto>
            \<lparr>tc_name = ''check_payment_status'', tc_call_id = ''call_1'', tc_arguments = PDict []\<rparr>]\<rparr>
         (ResponseFunctionCallArgumentsDone ''call_1''))))
      = [FunctionCallOutput ''call_1'' (CHR 0x22 # ''payment completed'' @ [CHR 0x22]), ResponseCreate]
   \<and> handle_event demo_conn \<lparr>client = demo_client, pending_tool_calls = Map.empty\<rparr>
         (ResponseFunctionCallArgumentsDone ''call_1'')
      = Ok \<lparr>client = demo_client, pending_tool_calls = Map.empty\<rparr>"
proof -
  let ?call = "\<lparr>tc_name = ''check_payment_status'', tc_call_id = ''call_1'', tc_arguments = PDict []\<rparr>"
  let ?s = "\<lparr>client = demo_client, pending_tool_calls = [''call_1'' \<mapsto> ?call]\<rparr>"
  let ?e = "\<lparr>client = demo_client, pending_tool_calls = Map.empty\<rparr>"
  let ?r = "handle_event demo_conn ?s (ResponseFunctionCallArgumentsDone ''call_1'')"
  have p: "pending_tool_calls ?s ''call_1'' = Some ?call" by simp
  have o: "?r = Ok (state_of ?r)"
    by (simp add: run_tool_call_def demo_client_def demo_customer_def send_def demo_conn_def Let_def)
  have j: "json_dumps (dispatch_tool (tc_name ?call) (customer_data (client ?s)))
      = CHR 0x22 # ''payment completed'' @ [CHR 0x22]"
    by (simp add: json_dumps_def dispatch_tool_def check_payment_status_def dict_get_def
        demo_client_def demo_customer_def)
  have u: "upstream (client ?s) = []" by (simp add: demo_client_def)
  note g = tool_call_done_once [of demo_conn ?s "''call_1''"]
  from g p o have 1: "pending_tool_calls (state_of ?r) = (pending_tool_calls ?s)(''call_1'' := None)"
    and 2: "upstream (client (state_of ?r)) = upstream (client ?s) @
        [FunctionCallOutput ''call_1''
           (json_dumps (dispatch_tool (tc_name ?call) (customer_data (client ?s)))), ResponseCreate]"
    by blast+
  have 3: "handle_event demo_conn ?e (ResponseFunctionCallArgumentsDone ''call_1'') = Ok ?e"
    using tool_call_done_once [of demo_conn ?e "''call_1''"] by simp
  from 1 have a1: "pending_tool_calls (state_of ?r) ''call_1'' = None" by simp
  from 2 have a2: "upstream (client (state_of ?r))
      = [FunctionCallOutput ''call_1'' (CHR 0x22 # ''payment completed'' @ [CHR 0x22]), ResponseCreate]"
    unfolding j u by simp
  from a1 a2 3 show ?thesis by blast
qed

subsection \<open>The call gateway\<close>


lemma send_fields [simp]:
  "connection (state_of (send conn c m)) = connection c"
  "upstream (state_of (send conn c m)) = upstream c @ [m]"
  "raised (send conn c m) = (if conn (upstream c) m then Some TransportError else None)"
  by (simp_all add: send_def Let_def)

lemma create_response_connection [simp]: "connection (create_response c) = connection c"
  by (auto simp: create_response_def send_def Let_def split: option.splits)

lemma b64decode_AAEC: "b64decode ''AAEC'' = Inr [0, 1, 2]"
  by (simp add: b64decode_def b64_index_def)

lemma b64encode_012: "b64encode [0, 1, 2] = ''AAEC''"
  by (simp add: b64_char_def char_eq_code)

text \<open>
  C4. An \<open>AudioData\<close> frame whose \<open>data\<close> is a string that base64-decodes to the bytes
  \<open>bs\<close>, received while the client has its connection, makes the receive loop call
  \<open>append_input_audio\<close> once and issue exactly one operation upstream, the append of
  the re-encoded \<open>bs\<close>; decoding what that operation carries gives \<open>bs\<close> again.
\<close>

theorem audio_frame_roundtrip:
  assumes "dict_get payload ''kind'' PNone = PStr ''AudioData''"
    and "map_of payload ''data'' = Some (PStr P)"
    and "b64decode P = Inr bs"
    and "connection (rt_client g) = Some conn"
  shows "upstream (rt_client (snd (receive_step g (Frame (PDict payload)))))
       = upstream (rt_client g) @ [InputAudioBufferAppend (b64encode bs)]
     \<and> b64decode (b64encode bs) = Inr bs
     \<and> client_calls (snd (receive_step g (Frame (PDict payload))))
       = client_calls g @ [AppendInputAudio bs]"
  using assms
  by (auto simp: receive_step_def forward_frame_def append_input_audio_def send_def Let_def
      is_conversation_done_def b64decode_b64encode)

theorem audio_frame_roundtrip_witness:
  "upstream (rt_client (snd (receive_step demo_gateway
       (Frame (PDict [(''kind'', PStr ''AudioData''), (''data'', PStr ''AAEC'')])))))
     = [InputAudioBufferAppend ''AAEC'']
   \<and> b64decode ''AAEC'' = Inr [0, 1, 2]"
proof -
  have k: "dict_get [(''kind'', PStr ''AudioData''), (''data'', PStr ''AAEC'')] ''kind'' PNone
      = PStr ''AudioData''"
    by (simp add: dict_get_def)
  have d: "map_of [(''kind'', PStr ''AudioData''), (''data'', PStr ''AAEC'')] ''data''
      = Some (PStr ''AAEC'')"
    by simp
  have c: "connection (rt_client demo_gateway) = Some demo_conn"
    by (simp add: demo_gateway_def demo_client_def)
  have u: "upstream (rt_client demo_gateway) = []"
    by (simp add: demo_gateway_def demo_client_def)
  from audio_frame_roundtrip [OF k d b64decode_AAEC c]
  show ?thesis unfolding b64encode_012 u by simp
qed

lemma receive_step_audio:
  assumes "dict_get payload ''kind'' PNone = PStr ''AudioData''"
    and "map_of payload ''data'' = Some (PStr P)"
    and "b64decode P = Inr bs"
    and "\<not> conversation_done (rt_client g)"
    and "\<forall>conn h m. connection (rt_client g) = Some conn \<longrightarrow> \<not> conn h m"
  shows "\<exists>g1. receive_step g (Frame (PDict payload)) = (Next, g1)
     \<and> client_calls g1 = client_calls g @ [AppendInputAudio bs]
     \<and> \<not> conversation_done (rt_client g1)
     \<and> connection (rt_client g1) = connection (rt_client g)"
  using assms
  by (cases "connection (rt_client g)")
     (auto simp: receive_step_def forward_frame_def append_input_audio_def send_def Let_def
        is_conversation_done_def)

lemma receive_step_stop:
  assumes "dict_get payload ''kind'' PNone = PStr ''StopAudio''"
    and "\<not> conversation_done (rt_client g)"
    and "\<forall>conn h m. connection (rt_client g) = Some conn \<longrightarrow> \<not> conn h m"
  shows "\<exists>g2. receive_step g (Frame (PDict payload)) = (Next, g2)
     \<and> client_calls g2 = client_calls g @ [CommitAudio, CreateResponse]"
  using assms
  by (cases "connection (rt_client g)")
     (auto simp: receive_step_def forward_frame_def commit_audio_def send_def Let_def
        is_conversation_done_def)

text \<open>
  C3 (amended). For two consecutive client frames, an \<open>AudioData\<close> frame whose \<open>data\<close>
  base64-decodes and then a \<open>StopAudio\<close> frame, received while the conversation-done
  flag is false and with no upstream operation raising, the receive loop calls
  append-audio once, then commit-audio once, then create-response once, in that order,
  and goes on.
\<close>

theorem audio_then_stop:
  assumes "dict_get payload1 ''kind'' PNone = PStr ''AudioData''"
    and "map_of payload1 ''data'' = Some (PStr P)"
    and "b64decode P = Inr bs"
    and "dict_get payload2 ''kind'' PNone = PStr ''StopAudio''"
    and "\<not> conversation_done (rt_client g)"
    and "\<forall>conn h m. connection (rt_client g) = Some conn \<longrightarrow> \<not> conn h m"
  shows "\<exists>g'. receive_loop g [Frame (PDict payload1), Frame (PDict payload2)] = (Next, g')
     \<and> client_calls g' = client_calls g @ [AppendInputAudio bs, CommitAudio, CreateResponse]"
proof -
  from receive_step_audio [OF assms(1,2,3,5,6)] obtain g1 where
    s1: "receive_step g (Frame (PDict payload1)) = (Next, g1)"
    and c1: "client_calls g1 = client_calls g @ [AppendInputAudio bs]"
    and d1: "\<not> conversation_done (rt_client g1)"
    and k1: "connection (rt_client g1) = connection (rt_client g)"
    by blast
  from assms(6) k1 have "\<forall>conn h m. connection (rt_client g1) = Some conn \<longrightarrow> \<not> conn h m"
    by simp
  from receive_step_stop [OF assms(4) d1 this] obtain g2 where
    s2: "receive_step g1 (Frame (PDict payload2)) = (Next, g2)"
    and c2: "client_calls g2 = client_calls g1 @ [CommitAudio, CreateResponse]"
    by blast
  from s1 s2 c1 c2 show ?thesis by simp
qed

theorem audio_then_stop_witness:
  "fst (receive_loop demo_gateway
       [Frame (PDict [(''kind'', PStr ''AudioData''), (''data'', PStr ''AAEC'')]),
        Frame (PDict [(''kind'', PStr ''StopAudio'')])]) = Next
   \<and> client_calls (snd (receive_loop demo_gateway
       [Frame (PDict [(''kind'', PStr ''AudioData''), (''data'', PStr ''AAEC'')]),
        Frame (PDict [(''kind'', PStr ''StopAudio'')])]))
     = [AppendInputAudio [0, 1, 2], CommitAudio, CreateResponse]"
proof -
  have k1: "dict_get [(''kind'', PStr ''AudioData''), (''data'', PStr ''AAEC'')] ''kind'' PNone
      = PStr ''AudioData''"
    by (simp add: dict_get_def)
  have d: "map_of [(''kind'', PStr ''AudioData''), (''data'', PStr ''AAEC'')] ''data''
      = Some (PStr ''AAEC'')"
    by simp
  have k2: "dict_get [(''kind'', PStr ''StopAudio'')] ''kind'' PNone = PStr ''StopAudio''"
    by (simp add: dict_get_def)
  have nd: "\<not> conversation_done (rt_client demo_gateway)"
    by (simp add: demo_gateway_def demo_client_def)
  have nr: "\<forall>conn h m. connection (rt_client demo_gateway) = Some conn \<longrightarrow> \<not> conn h m"
    by (simp add: demo_gateway_def demo_client_def demo_conn_def)
  have cc: "client_calls demo_gateway = []"
    by (simp add: demo_gateway_def)
  from audio_then_stop [OF k1 d b64decode_AAEC k2 nd nr] cc
  show ?thesis by (auto simp del: receive_loop.simps)
qed

text \<open>
  Without the condition on the flag the two frames do not give the three calls: when the
  event loop has set conversation-done, the loop forwards the audio, writes \<open>StopAudio\<close>
  to the client and breaks, and the second frame is never read.
\<close>

theorem audio_then_stop_counterexample:
  "fst (receive_loop (demo_gateway\<lparr>rt_client := demo_client\<lparr>conversation_done := True\<rparr>\<rparr>)
       [Frame (PDict [(''kind'', PStr ''AudioData''), (''data'', PStr ''AAEC'')]),
        Frame (PDict [(''kind'', PStr ''StopAudio'')])]) = Break
   \<and> client_calls (snd (receive_loop
       (demo_gateway\<lparr>rt_client := demo_client\<lparr>conversation_done := True\<rparr>\<rparr>)
       [Frame (PDict [(''kind'', PStr ''AudioData''), (''data'', PStr ''AAEC'')]),
        Frame (PDict [(''kind'', PStr ''StopAudio'')])]))
     = [AppendInputAudio [0, 1, 2]]"
  by (simp add: receive_step_def forward_frame_def dict_get_def b64decode_AAEC
      append_input_audio_def send_def Let_def is_conversation_done_def demo_gateway_def
      demo_client_def demo_conn_def)

subsection \<open>Connecting\<close>


text \<open>
  C6 (amended). If the endpoint, the credential, the API version or the deployment id is
  absent or empty, \<open>connect\<close> fails its caller by raising \<open>ValueError\<close> (not a
  \<open>ConnectionError\<close>), with \<open>connected\<close> false and nothing issued upstream.
\<close>

theorem connect_missing_config:
  assumes "falsy (endpoint cfg) \<or> falsy (api_key cfg) \<or> falsy (api_version cfg)
      \<or> falsy (deployment cfg)"
  shows "connect cfg handshake c = Raised ValueError (c\<lparr>connected := False\<rparr>)
     \<and> raised (connect cfg handshake c) \<noteq> Some ConnectionError
     \<and> upstream (state_of (connect cfg handshake c)) = upstream c"
  using assms by (simp add: connect_def)

theorem connect_missing_config_witness:
  "falsy (endpoint (module_config (Some ''key'') None))
   \<and> connect (module_config (Some ''key'') None) (Inr demo_conn) demo_client
       = Raised ValueError (demo_client\<lparr>connected := False\<rparr>)"
  using connect_missing_config [of "module_config (Some ''key'') None" "Inr demo_conn" demo_client]
  by (simp add: module_config_def falsy_def)

text \<open>With neither key nor endpoint in the environment the exception that reaches the
  caller is the \<open>ValueError\<close> of line 87.\<close>

theorem connect_missing_config_counterexample:
  "raised (connect (module_config None None) (Inr demo_conn) demo_client) = Some ValueError
   \<and> raised (connect (module_config None None) (Inr demo_conn) demo_client)
       \<noteq> Some ConnectionError"
  by (simp add: connect_def module_config_def falsy_def)

lemma connect_module_config:
  "\<not> falsy key \<Longrightarrow> \<not> falsy ep \<Longrightarrow>
     raised (connect (module_config key ep) (Inr conn) c)
       = (if conn (upstream c) (SessionUpdate (instructions c)) then Some TransportError else None)"
  by (auto simp: connect_def module_config_def falsy_def Let_def disconnect_def send_def)

subsection \<open>Call initiation\<close>


lemma start_call_mock:
  assumes "\<not> falsy (MOCK_MODE env)"
  shows "\<exists>resp md. fst (start_call env store now cid data) = Inr resp
     \<and> map_option call_metadata (snd (start_call env store now cid data) cid) = Some (PDict md)"
  using assms
  by (auto simp: start_call_def fetch_additional_customer_info_def Let_def
      split: sum.splits list.splits)

lemma start_call_mock_failure:
  assumes "\<not> falsy (MOCK_MODE env)" and "data_csv env = Inl e"
  shows "\<exists>resp. fst (start_call env store now cid data) = Inr resp
     \<and> map_option call_metadata (snd (start_call env store now cid data) cid) = Some (PDict [])"
  using assms
  by (auto simp: start_call_def fetch_additional_customer_info_def Let_def)

text \<open>
  C5. The claim asks that a failing resolver still gives a successful response of
  \<open>start_call\<close> with an empty dict as stored metadata. The mock resolver does so (the two
  lemmas above). The REST resolver does not: when the caller's login is rejected and the
  default login is accepted, the handler reads the undefined name \<open>LOAN_ID\<close> and
  \<open>start_call\<close> ends with \<open>NameError\<close>; when every login is rejected, \<open>start_call\<close>
  succeeds and stores the pair of two empty lists, which is not an empty dict.
\<close>

theorem start_call_resolver_failure:
  "fst (start_call (demo_env None demo_ltfs_fallback) Map.empty ''now'' ''call-1'' demo_request)
     = Inl NameError
   \<and> fst (start_call (demo_env None demo_ltfs_down) Map.empty ''now'' ''call-1'' demo_request)
     = Inr \<lparr>call_id = ''call-1'', created_at = ''now'', status = ''COMPLETED'',
            initiate = demo_request\<rparr>
   \<and> map_option call_metadata
        (snd (start_call (demo_env None demo_ltfs_down) Map.empty ''now'' ''call-1'' demo_request)
           ''call-1'')
     = Some (PTuple [PList [], PList []])
   \<and> map_option call_metadata
        (snd (start_call (demo_env (Some ''1'') demo_ltfs_down) Map.empty ''now'' ''call-1''
           demo_request) ''call-1'')
     = Some (PDict [])"
  by (simp add: start_call_def run_ltfs_flow_def fallback_flow_def caught_def demo_env_def
      demo_ltfs_fallback_def demo_ltfs_down_def falsy_def Let_def
      fetch_additional_customer_info_def)

end
